theory Spec2Isabelle
  imports Complex_Main
begin

section \<open>Values of the source language\<close>

text \<open>
  The program is TypeScript. A \<open>number\<close> is modelled as a \<open>real\<close> (rounding is not
  modelled), an optional field \<open>f?: T\<close> as \<open>T option\<close> (\<open>None\<close> is \<open>undefined\<close>), a string
  as \<open>string\<close>. The operator \<open>a || b\<close> yields \<open>b\<close> when \<open>a\<close> is falsy: \<open>undefined\<close>, the empty
  string or the number zero.
\<close>

definition or_string :: "string option \<Rightarrow> string \<Rightarrow> string" where
  "or_string a b = (case a of None \<Rightarrow> b | Some s \<Rightarrow> if s = [] then b else s)"

definition or_zero :: "real option \<Rightarrow> real" where
  "or_zero a = (case a of None \<Rightarrow> 0 | Some v \<Rightarrow> if v = 0 then 0 else v)"

text \<open>The outcome of an awaited request to the backend: the promise rejects or resolves.\<close>

datatype 'a response = Rejected string | Resolved 'a

section \<open>Data model (src/types/graph.d.ts)\<close>

type_synonym properties = "(string \<times> string) list"

text \<open>
  \<open>ForceGraphNode extends GraphNode\<close> by optional fields only, so one record serves for
  both interfaces. \<open>node_uid\<close> is the field \<open>_id\<close>, \<open>node_type\<close> the field \<open>type\<close>.
\<close>

record ForceGraphNode =
  node_id :: string
  node_uid :: "string option"
  node_label :: string
  node_type :: string
  node_properties :: properties
  node_x :: real
  node_y :: real
  node_fx :: "real option"
  node_fy :: "real option"
  node_createdAt :: "string option"
  node_updatedAt :: "string option"
  node_vx :: "real option"
  node_vy :: "real option"
  node_index :: "nat option"

record GraphEdge =
  edge_id :: string
  edge_uid :: "string option"
  edge_source :: string
  edge_target :: string
  edge_label :: string
  edge_properties :: properties
  edge_directed :: bool
  edge_createdAt :: "string option"
  edge_updatedAt :: "string option"

text \<open>\<open>ForceGraphEdge\<close>: the endpoints are node objects, as the interface declares them.\<close>

record ForceGraphEdge =
  link_id :: string
  link_uid :: "string option"
  link_source :: ForceGraphNode
  link_target :: ForceGraphNode
  link_label :: string
  link_properties :: properties
  link_directed :: bool
  link_createdAt :: "string option"
  link_updatedAt :: "string option"

record GraphData =
  gd_nodes :: "ForceGraphNode list"
  gd_edges :: "GraphEdge list"

record ForceGraphData =
  fg_nodes :: "ForceGraphNode list"
  fg_links :: "ForceGraphEdge list"

datatype SelectedItem = SelNode ForceGraphNode | SelEdge GraphEdge

fun selected_id :: "SelectedItem \<Rightarrow> string" where
  "selected_id (SelNode n) = node_id n"
| "selected_id (SelEdge e) = edge_id e"

fun selected_label :: "SelectedItem \<Rightarrow> string" where
  "selected_label (SelNode n) = node_label n"
| "selected_label (SelEdge e) = edge_label e"

section \<open>PHYSICS_CONFIG (src/types/constants.ts)\<close>

definition ALPHA_DECAY :: real where "ALPHA_DECAY = 0.015"
definition VELOCITY_DECAY :: real where "VELOCITY_DECAY = 0.4"
definition ALPHA_TARGET :: real where "ALPHA_TARGET = 0.05"
definition REHEAT_STRENGTH :: real where "REHEAT_STRENGTH = 0.2"

section \<open>GraphView: conversion of a backend snapshot\<close>

text \<open>
  \<open>convertToForceGraphData\<close>: every node gets the id \<open>_id || id\<close> and is entered in
  \<open>nodeMap\<close> under it (a later node with the same id replaces an earlier one); an edge
  whose source or target is not a key of \<open>nodeMap\<close> is mapped to \<open>null\<close> after
  \<open>console.warn\<close>, and the \<open>null\<close>s are filtered out. The model returns the converted data
  together with the console output.
\<close>

definition to_force_node :: "ForceGraphNode \<Rightarrow> ForceGraphNode" where
  "to_force_node node = node\<lparr>node_id := or_string (node_uid node) (node_id node)\<rparr>"

definition node_map :: "ForceGraphNode list \<Rightarrow> (string \<rightharpoonup> ForceGraphNode)" where
  "node_map ns = fold (\<lambda>forceNode m. m(node_id forceNode \<mapsto> forceNode)) ns Map.empty"

definition edge_warning :: "GraphEdge \<Rightarrow> string" where
  "edge_warning edge =
     ''Edge references non-existent node: '' @ edge_source edge @ '' -> '' @ edge_target edge"

definition convert_edge ::
  "(string \<rightharpoonup> ForceGraphNode) \<Rightarrow> GraphEdge \<Rightarrow> string + ForceGraphEdge" where
  "convert_edge nodeMap edge =
     (case nodeMap (edge_source edge) of
        None \<Rightarrow> Inl (edge_warning edge)
      | Some sourceNode \<Rightarrow>
          (case nodeMap (edge_target edge) of
             None \<Rightarrow> Inl (edge_warning edge)
           | Some targetNode \<Rightarrow>
               Inr \<lparr>link_id = or_string (edge_uid edge) (edge_id edge),
                    link_uid = edge_uid edge,
                    link_source = sourceNode,
                    link_target = targetNode,
                    link_label = edge_label edge,
                    link_properties = edge_properties edge,
                    link_directed = edge_directed edge,
                    link_createdAt = edge_createdAt edge,
                    link_updatedAt = edge_updatedAt edge\<rparr>))"

definition convertToForceGraphData :: "GraphData \<Rightarrow> ForceGraphData \<times> string list" where
  "convertToForceGraphData data =
     (let nodes = map to_force_node (gd_nodes data);
          nodeMap = node_map nodes;
          converted = map (convert_edge nodeMap) (gd_edges data)
      in (\<lparr>fg_nodes = nodes, fg_links = [l. Inr l \<leftarrow> converted]\<rparr>,
          [w. Inl w \<leftarrow> converted]))"

section \<open>GraphView: selection, creation and deletion\<close>

text \<open>
  The state of the \<open>GraphView\<close> component. The \<open>onConfirm\<close> closure of the confirmation
  dialog is represented by the selected item it captured (\<open>None\<close> is the initial
  \<open>() => {}\<close>).
\<close>

record ConfirmModal =
  modal_isOpen :: bool
  modal_title :: string
  modal_message :: string
  modal_onConfirm :: "SelectedItem option"

record GraphView =
  gv_graphData :: ForceGraphData
  gv_selectedItem :: "SelectedItem option"
  gv_searchQuery :: string
  gv_searchHighlights :: "string list"
  gv_isPropertiesPanelOpen :: bool
  gv_isLoading :: bool
  gv_error :: "string option"
  gv_confirmModal :: ConfirmModal

definition handleNodeClick :: "ForceGraphNode \<Rightarrow> GraphView \<Rightarrow> GraphView" where
  "handleNodeClick node st =
     st\<lparr>gv_selectedItem := Some (SelNode node), gv_isPropertiesPanelOpen := True\<rparr>"

definition basic_edge :: "ForceGraphEdge \<Rightarrow> GraphEdge" where
  "basic_edge edge =
     \<lparr>edge_id = link_id edge,
      edge_uid = link_uid edge,
      edge_source = node_id (link_source edge),
      edge_target = node_id (link_target edge),
      edge_label = link_label edge,
      edge_properties = link_properties edge,
      edge_directed = link_directed edge,
      edge_createdAt = link_createdAt edge,
      edge_updatedAt = link_updatedAt edge\<rparr>"

definition handleEdgeClick :: "ForceGraphEdge \<Rightarrow> GraphView \<Rightarrow> GraphView" where
  "handleEdgeClick edge st =
     st\<lparr>gv_selectedItem := Some (SelEdge (basic_edge edge)), gv_isPropertiesPanelOpen := True\<rparr>"

text \<open>
  \<open>handleCreateNode\<close> is the handler of a click on the empty background
  (\<open>onBackgroundClick\<close>). The click coordinates go into the request only; the argument
  \<open>created\<close> is the outcome of \<open>graphApi.createNode\<close>.
\<close>

definition handleCreateNode :: "ForceGraphNode response \<Rightarrow> GraphView \<Rightarrow> GraphView" where
  "handleCreateNode created st =
     (case created of
        Rejected err \<Rightarrow> st\<lparr>gv_error := Some ''Failed to create node''\<rparr>
      | Resolved newNode \<Rightarrow>
          st\<lparr>gv_graphData :=
                (gv_graphData st)\<lparr>fg_nodes := fg_nodes (gv_graphData st) @ [to_force_node newNode]\<rparr>,
             gv_selectedItem := Some (SelNode newNode),
             gv_isPropertiesPanelOpen := True\<rparr>)"

definition handleClosePropertiesPanel :: "GraphView \<Rightarrow> GraphView" where
  "handleClosePropertiesPanel st =
     st\<lparr>gv_isPropertiesPanelOpen := False, gv_selectedItem := None\<rparr>"

definition item_name :: "SelectedItem \<Rightarrow> string" where
  "item_name item = (case item of SelNode n \<Rightarrow> ''node'' | SelEdge e \<Rightarrow> ''edge'')"

definition handleDeleteItem :: "GraphView \<Rightarrow> GraphView" where
  "handleDeleteItem st =
     (case gv_selectedItem st of
        None \<Rightarrow> st
      | Some item \<Rightarrow>
          st\<lparr>gv_confirmModal :=
               \<lparr>modal_isOpen = True,
                modal_title = ''Delete '' @ item_name item,
                modal_message =
                  ''Are you sure you want to delete the '' @ item_name item @ '' '' @ [CHR 0x22]
                  @ (if selected_label item = [] then ''Unnamed'' else selected_label item)
                  @ [CHR 0x22] @ ''?''
                  @ (case item of
                       SelNode n \<Rightarrow> '' This will also delete all connected edges.''
                     | SelEdge e \<Rightarrow> []),
                modal_onConfirm = Some item\<rparr>\<rparr>)"

text \<open>
  The \<open>onConfirm\<close> closure built by \<open>handleDeleteItem\<close> for the captured \<open>item\<close>; \<open>deleted\<close> is
  the outcome of \<open>graphApi.deleteNode\<close> or \<open>graphApi.deleteEdge\<close>.
\<close>

definition onConfirm :: "SelectedItem \<Rightarrow> unit response \<Rightarrow> GraphView \<Rightarrow> GraphView" where
  "onConfirm item deleted st =
     (case deleted of
        Rejected err \<Rightarrow> st\<lparr>gv_error := Some (''Failed to delete '' @ item_name item)\<rparr>
      | Resolved u \<Rightarrow>
          (let prev = gv_graphData st;
               graphData =
                 (case item of
                    SelNode n \<Rightarrow>
                      \<lparr>fg_nodes = filter (\<lambda>node. node_id node \<noteq> selected_id item) (fg_nodes prev),
                       fg_links =
                         filter (\<lambda>link. node_id (link_source link) \<noteq> selected_id item
                                       \<and> node_id (link_target link) \<noteq> selected_id item)
                           (fg_links prev)\<rparr>
                  | SelEdge e \<Rightarrow>
                      prev\<lparr>fg_links :=
                             filter (\<lambda>link. link_id link \<noteq> selected_id item) (fg_links prev)\<rparr>)
           in st\<lparr>gv_graphData := graphData,
                 gv_selectedItem := None,
                 gv_isPropertiesPanelOpen := False,
                 gv_confirmModal := (gv_confirmModal st)\<lparr>modal_isOpen := False\<rparr>\<rparr>))"

text \<open>Pressing the confirm button of the dialog runs the closure it holds.\<close>

definition confirm_modal :: "unit response \<Rightarrow> GraphView \<Rightarrow> GraphView" where
  "confirm_modal deleted st =
     (case modal_onConfirm (gv_confirmModal st) of
        None \<Rightarrow> st
      | Some item \<Rightarrow> onConfirm item deleted st)"

definition handleDeleteEdgeFromContext :: "string \<Rightarrow> unit response \<Rightarrow> GraphView \<Rightarrow> GraphView" where
  "handleDeleteEdgeFromContext edgeId deleted st =
     (case deleted of
        Rejected err \<Rightarrow> st\<lparr>gv_error := Some ''Failed to delete edge''\<rparr>
      | Resolved u \<Rightarrow>
          (let st1 = st\<lparr>gv_graphData :=
                          (gv_graphData st)\<lparr>fg_links :=
                             filter (\<lambda>link. link_id link \<noteq> edgeId) (fg_links (gv_graphData st))\<rparr>\<rparr>
           in (case gv_selectedItem st of
                 Some (SelEdge e) \<Rightarrow>
                   if edge_id e = edgeId
                   then st1\<lparr>gv_selectedItem := None, gv_isPropertiesPanelOpen := False\<rparr>
                   else st1
               | _ \<Rightarrow> st1)))"

text \<open>
  \<open>loadGraphData\<close>: \<open>fetched\<close> is the outcome of \<open>graphApi.getGraph\<close>. The second component is
  what the conversion writes with \<open>console.warn\<close>.
\<close>

definition loadGraphData :: "GraphData response \<Rightarrow> GraphView \<Rightarrow> GraphView \<times> string list" where
  "loadGraphData fetched st =
     (case fetched of
        Rejected msg \<Rightarrow> (st\<lparr>gv_isLoading := False, gv_error := Some msg\<rparr>, [])
      | Resolved data \<Rightarrow>
          (st\<lparr>gv_isLoading := False, gv_error := None,
              gv_graphData := fst (convertToForceGraphData data)\<rparr>,
           snd (convertToForceGraphData data)))"

section \<open>apiClient: the debounced position update\<close>

text \<open>
  \<open>debounce(func, delay)\<close> keeps one variable \<open>timeoutId\<close>. A \<open>'a timer\<close> is a pending timeout:
  the time at which it is due and the arguments its callback passes to \<open>func\<close>. A call of
  the debounced function at time \<open>now\<close> clears the pending timeout and sets a new one, due
  at \<open>now + delay\<close>. Time is counted in milliseconds.
\<close>

datatype 'a timer = Timer nat 'a

definition debounced :: "nat \<Rightarrow> nat \<Rightarrow> 'a \<Rightarrow> 'a timer option \<Rightarrow> 'a timer option" where
  "debounced delay now args timeoutId = Some (Timer (now + delay) args)"

text \<open>
  The event loop on a list of calls \<open>(time, arguments)\<close>, in the order of their times:
  a pending timeout that is due when the next call arrives has fired before it (its
  callback runs \<open>func\<close>, recorded with the time it was due); after the last call the
  pending timeout fires when it is due. The result lists the invocations of \<open>func\<close>.
\<close>

fun run_calls :: "nat \<Rightarrow> (nat \<times> 'a) list \<Rightarrow> 'a timer option \<Rightarrow> (nat \<times> 'a) list" where
  "run_calls delay [] timeoutId =
     (case timeoutId of None \<Rightarrow> [] | Some (Timer d b) \<Rightarrow> [(d, b)])"
| "run_calls delay ((t, a) # calls) timeoutId =
     (case timeoutId of
        None \<Rightarrow> run_calls delay calls (debounced delay t a None)
      | Some (Timer d b) \<Rightarrow>
          if d \<le> t then (d, b) # run_calls delay calls (debounced delay t a None)
          else run_calls delay calls (debounced delay t a (Some (Timer d b))))"

text \<open>
  \<open>debouncedUpdateNodePosition = debounce((id, x, y) => graphApi.updateNode(id, {x, y}), 500)\<close>:
  the invocations of \<open>func\<close> are the outbound position updates.
\<close>

datatype api_request = UpdateNode string real real

definition position_updates :: "(nat \<times> string \<times> real \<times> real) list \<Rightarrow> (nat \<times> api_request) list" where
  "position_updates calls =
     map (\<lambda>(t, i, px, py). (t, UpdateNode i px py)) (run_calls 500 calls None)"

section \<open>GraphCanvas: the context menu\<close>

record ContextMenu =
  cm_show :: bool
  cm_x :: real
  cm_y :: real
  cm_sourceNode :: "ForceGraphNode option"
  cm_targetNode :: "ForceGraphNode option"

text \<open>The callbacks \<open>onCreateEdge(sourceId, targetId)\<close> and \<open>onDeleteEdge(edgeId)\<close>.\<close>

datatype canvas_event = CreateEdge string string | DeleteEdge string

definition handleCreateEdgeFromContext ::
  "ForceGraphNode \<Rightarrow> ContextMenu \<Rightarrow> canvas_event list \<times> ContextMenu" where
  "handleCreateEdgeFromContext targetNode contextMenu =
     ((case cm_sourceNode contextMenu of
         None \<Rightarrow> []
       | Some sourceNode \<Rightarrow>
           if node_id targetNode \<noteq> node_id sourceNode
           then [CreateEdge (node_id sourceNode) (node_id targetNode)]
           else []),
      contextMenu\<lparr>cm_show := False\<rparr>)"

record ConnectedInfo =
  ci_node :: ForceGraphNode
  ci_edgeId :: string
  ci_isSource :: bool

text \<open>
  \<open>getConnectedNodesInfo\<close>: the body of \<open>data.links.forEach\<close> is \<open>connected_step\<close>, pushing
  onto \<open>connectedInfo\<close>. The endpoints of a link are node objects, by the declared type, so
  \<open>sourceId\<close> and \<open>targetId\<close> are their ids. \<open>getUnconnectedNodes\<close> collects the ids of the
  other endpoints in a set and filters the nodes.
\<close>

definition connected_step ::
  "string \<Rightarrow> ForceGraphData \<Rightarrow> ConnectedInfo list \<Rightarrow> ForceGraphEdge \<Rightarrow> ConnectedInfo list" where
  "connected_step sourceNodeId data connectedInfo link =
     (let sourceId = node_id (link_source link);
          targetId = node_id (link_target link)
      in if sourceId = sourceNodeId then
           (case find (\<lambda>n. node_id n = targetId) (fg_nodes data) of
              Some targetNode \<Rightarrow>
                connectedInfo
                @ [\<lparr>ci_node = targetNode, ci_edgeId = link_id link, ci_isSource = True\<rparr>]
            | None \<Rightarrow> connectedInfo)
         else if targetId = sourceNodeId then
           (case find (\<lambda>n. node_id n = sourceId) (fg_nodes data) of
              Some sourceNode \<Rightarrow>
                connectedInfo
                @ [\<lparr>ci_node = sourceNode, ci_edgeId = link_id link, ci_isSource = False\<rparr>]
            | None \<Rightarrow> connectedInfo)
         else connectedInfo)"

definition getConnectedNodesInfo :: "string \<Rightarrow> ForceGraphData \<Rightarrow> ConnectedInfo list" where
  "getConnectedNodesInfo sourceNodeId data =
     foldl (connected_step sourceNodeId data) [] (fg_links data)"

definition connected_ids_step :: "string \<Rightarrow> string set \<Rightarrow> ForceGraphEdge \<Rightarrow> string set" where
  "connected_ids_step sourceNodeId connectedNodeIds link =
     (let sourceId = node_id (link_source link);
          targetId = node_id (link_target link)
      in if sourceId = sourceNodeId then insert targetId connectedNodeIds
         else if targetId = sourceNodeId then insert sourceId connectedNodeIds
         else connectedNodeIds)"

definition getUnconnectedNodes :: "string \<Rightarrow> ForceGraphData \<Rightarrow> ForceGraphNode list" where
  "getUnconnectedNodes sourceNodeId data =
     (let connectedNodeIds = foldl (connected_ids_step sourceNodeId) {} (fg_links data)
      in filter (\<lambda>node. node_id node \<noteq> sourceNodeId \<and> node_id node \<notin> connectedNodeIds)
           (fg_nodes data))"

section \<open>GraphCanvas: the simulation, its update on new data, and dragging\<close>

text \<open>
  The part of the force simulation that the component reads and writes: the registered
  node array (\<open>simulation.nodes()\<close>), \<open>alpha\<close>, \<open>alphaTarget\<close>, and whether the internal
  timer runs (\<open>restart\<close> starts it).
\<close>

record Simulation =
  sim_nodes :: "ForceGraphNode list"
  sim_alpha :: real
  sim_alphaTarget :: real
  sim_running :: bool

text \<open>
  The body of \<open>newNodes.forEach\<close> in the data-update effect: a new node whose id is found
  among the existing simulation nodes (the first match of \<open>find\<close>) takes over \<open>x\<close>, \<open>y\<close>,
  \<open>vx || 0\<close>, \<open>vy || 0\<close>, \<open>fx\<close> and \<open>fy\<close>; any other new node is left as it is.
\<close>

definition carry_forward :: "ForceGraphNode list \<Rightarrow> ForceGraphNode \<Rightarrow> ForceGraphNode" where
  "carry_forward existingNodes newNode =
     (case find (\<lambda>n. node_id n = node_id newNode) existingNodes of
        None \<Rightarrow> newNode
      | Some existingNode \<Rightarrow>
          newNode\<lparr>node_x := node_x existingNode,
                  node_y := node_y existingNode,
                  node_vx := Some (or_zero (node_vx existingNode)),
                  node_vy := Some (or_zero (node_vy existingNode)),
                  node_fx := node_fx existingNode,
                  node_fy := node_fy existingNode\<rparr>)"

text \<open>
  \<open>simulation.nodes(newNodes)\<close> of the force-simulation library registers the array. As the
  library documents it, every node is assigned its index, a fixed coordinate (\<open>fx\<close>, \<open>fy\<close>)
  is copied into the position, and a node without a velocity gets the velocity (0, 0).
\<close>

definition register_node :: "nat \<Rightarrow> ForceGraphNode \<Rightarrow> ForceGraphNode" where
  "register_node i n =
     (let n1 = n\<lparr>node_index := Some i,
                 node_x := (case node_fx n of None \<Rightarrow> node_x n | Some f \<Rightarrow> f),
                 node_y := (case node_fy n of None \<Rightarrow> node_y n | Some f \<Rightarrow> f)\<rparr>
      in if node_vx n1 = None \<or> node_vy n1 = None
         then n1\<lparr>node_vx := Some 0, node_vy := Some 0\<rparr>
         else n1)"

definition register_nodes :: "ForceGraphNode list \<Rightarrow> ForceGraphNode list" where
  "register_nodes ns = map (\<lambda>(i, n). register_node i n) (enumerate 0 ns)"

text \<open>
  The data-update effect on the simulation: nothing is registered for an empty node list
  (the effect returns early); otherwise the new nodes, after the carry-forward
  (\<open>reconciled\<close>), are registered in place of the old ones, and the simulation is reheated
  when \<open>alpha\<close> is below \<open>ALPHA_TARGET\<close>.
\<close>

definition reconciled :: "ForceGraphData \<Rightarrow> Simulation \<Rightarrow> ForceGraphNode list" where
  "reconciled data simulation =
     (let existingNodes = sim_nodes simulation
      in map (carry_forward existingNodes) (fg_nodes data))"

definition update_simulation :: "ForceGraphData \<Rightarrow> Simulation \<Rightarrow> Simulation" where
  "update_simulation data simulation =
     (if fg_nodes data = [] then simulation
      else
        (let newNodes = reconciled data simulation;
             simulation1 = simulation\<lparr>sim_nodes := register_nodes newNodes\<rparr>
         in if sim_alpha simulation1 < ALPHA_TARGET
            then simulation1\<lparr>sim_alpha := REHEAT_STRENGTH, sim_running := True\<rparr>
            else simulation1))"

text \<open>
  A drag event as the handlers read it: its coordinates and \<open>active\<close>, the number of other
  drag gestures in progress.
\<close>

record DragEvent =
  ev_x :: real
  ev_y :: real
  ev_active :: nat

text \<open>
  The datum \<open>d\<close> of a handler is an object of the registered node array; \<open>on_node k f\<close>
  applies the handler's assignments \<open>f\<close> to the node at position \<open>k\<close>.
\<close>

definition on_node :: "nat \<Rightarrow> (ForceGraphNode \<Rightarrow> ForceGraphNode) \<Rightarrow> Simulation \<Rightarrow> Simulation" where
  "on_node k f simulation =
     simulation\<lparr>sim_nodes := (sim_nodes simulation)[k := f (sim_nodes simulation ! k)]\<rparr>"

text \<open>The \<open>start\<close>, \<open>drag\<close> and \<open>end\<close> listeners of \<open>d3.drag\<close>.\<close>

definition dragstarted :: "DragEvent \<Rightarrow> nat \<Rightarrow> Simulation \<Rightarrow> Simulation" where
  "dragstarted event k simulation =
     on_node k (\<lambda>d. d\<lparr>node_fx := Some (node_x d), node_fy := Some (node_y d)\<rparr>)
       (if ev_active event = 0
        then simulation\<lparr>sim_alphaTarget := 0.3, sim_running := True\<rparr>
        else simulation)"

definition dragged :: "DragEvent \<Rightarrow> nat \<Rightarrow> Simulation \<Rightarrow> Simulation" where
  "dragged event k simulation =
     on_node k (\<lambda>d. d\<lparr>node_fx := Some (ev_x event), node_fy := Some (ev_y event)\<rparr>) simulation"

definition dragended :: "DragEvent \<Rightarrow> nat \<Rightarrow> Simulation \<Rightarrow> Simulation" where
  "dragended event k simulation =
     on_node k (\<lambda>d. d\<lparr>node_fx := Some (node_x d), node_fy := Some (node_y d)\<rparr>)
       (if ev_active event = 0
        then simulation\<lparr>sim_alphaTarget := ALPHA_TARGET\<rparr>
        else simulation)"

section \<open>The tick of the physics engine\<close>

text \<open>
  Modelled from the spec: the tick of the Physics Engine, which is the force-simulation
  library and not part of the sources. Per the spec (sections 3 and 4.1): forces change
  velocities (here an arbitrary function \<open>fs\<close> giving each node's velocity change),
  velocity is damped by \<open>velocityDecay\<close> and added to the position, a pinned coordinate
  (\<open>fx\<close> or \<open>fy\<close> set) is forced to the pin every tick with its velocity zeroed, the pin
  itself is never altered, and \<open>alpha\<close> moves towards \<open>alphaTarget\<close> by the share
  \<open>alphaDecay\<close>.
\<close>

type_synonym forces = "ForceGraphNode list \<Rightarrow> ForceGraphNode \<Rightarrow> real \<times> real"

definition tick_node :: "real \<times> real \<Rightarrow> ForceGraphNode \<Rightarrow> ForceGraphNode" where
  "tick_node dv n =
     (let vx1 = (or_zero (node_vx n) + fst dv) * VELOCITY_DECAY;
          vy1 = (or_zero (node_vy n) + snd dv) * VELOCITY_DECAY
      in n\<lparr>node_x := (case node_fx n of None \<Rightarrow> node_x n + vx1 | Some f \<Rightarrow> f),
            node_vx := (case node_fx n of None \<Rightarrow> Some vx1 | Some f \<Rightarrow> Some 0),
            node_y := (case node_fy n of None \<Rightarrow> node_y n + vy1 | Some f \<Rightarrow> f),
            node_vy := (case node_fy n of None \<Rightarrow> Some vy1 | Some f \<Rightarrow> Some 0)\<rparr>)"

definition tick :: "forces \<Rightarrow> Simulation \<Rightarrow> Simulation" where
  "tick fs simulation =
     simulation\<lparr>sim_alpha :=
                   sim_alpha simulation
                   + (sim_alphaTarget simulation - sim_alpha simulation) * ALPHA_DECAY,
                 sim_nodes :=
                   map (\<lambda>n. tick_node (fs (sim_nodes simulation) n) n) (sim_nodes simulation)\<rparr>"



section \<open>GraphCanvas: fit to screen and centre on node\<close>

text \<open>
  The zoom transform \<open>{k, x, y}\<close> with the library's \<open>zoomIdentity\<close>, \<open>translate\<close> and \<open>scale\<close>
  (\<open>translate\<close> adds \<open>k\<close> times its arguments, \<open>scale\<close> multiplies \<open>k\<close>), and the scale extent
  the component configures on its zoom behaviour.
\<close>

record ZoomTransform =
  zt_k :: real
  zt_x :: real
  zt_y :: real

definition zoomIdentity :: ZoomTransform where
  "zoomIdentity = \<lparr>zt_k = 1, zt_x = 0, zt_y = 0\<rparr>"

definition zt_translate :: "ZoomTransform \<Rightarrow> real \<Rightarrow> real \<Rightarrow> ZoomTransform" where
  "zt_translate t tx ty = t\<lparr>zt_x := zt_x t + zt_k t * tx, zt_y := zt_y t + zt_k t * ty\<rparr>"

definition zt_scale :: "ZoomTransform \<Rightarrow> real \<Rightarrow> ZoomTransform" where
  "zt_scale t k = t\<lparr>zt_k := zt_k t * k\<rparr>"

definition scaleExtent :: "real \<times> real" where
  "scaleExtent = (0.1, 5)"

text \<open>
  The canvas: whether \<open>svgRef.current\<close> and \<open>zoomRef.current\<close> are set, the \<open>dimensions\<close>
  state and the current transform. \<open>BBox\<close> is the result of \<open>getBBox()\<close> on the container,
  an input of \<open>fitToScreen\<close>.
\<close>

record Dimensions =
  dim_width :: real
  dim_height :: real

record BBox =
  bb_x :: real
  bb_y :: real
  bb_width :: real
  bb_height :: real

record Canvas =
  cv_svg :: bool
  cv_zoom :: bool
  cv_dimensions :: Dimensions
  cv_transform :: ZoomTransform

text \<open>
  \<open>d3.select(svg).transition().duration(750).call(zoom.transform, t)\<close>: the transition ends
  in the transform \<open>t\<close> as given. The library applies the scale extent to gestures and to
  \<open>scaleBy\<close>/\<open>scaleTo\<close>, not to \<open>zoom.transform\<close>.
\<close>

definition zoom_transform :: "ZoomTransform \<Rightarrow> Canvas \<Rightarrow> Canvas" where
  "zoom_transform t cv = cv\<lparr>cv_transform := t\<rparr>"

definition fitToScreen :: "BBox option \<Rightarrow> Canvas \<Rightarrow> Canvas" where
  "fitToScreen bounds cv =
     (if \<not> cv_svg cv \<or> \<not> cv_zoom cv then cv
      else
        (case bounds of
           None \<Rightarrow> cv
         | Some b \<Rightarrow>
             if bb_width b > 0 \<and> bb_height b > 0 then
               (let fullWidth = dim_width (cv_dimensions cv);
                    fullHeight = dim_height (cv_dimensions cv);
                    widthScale = fullWidth / bb_width b;
                    heightScale = fullHeight / bb_height b;
                    scale = min widthScale heightScale * 0.8;
                    translate0 = fullWidth / 2 - scale * (bb_x b + bb_width b / 2);
                    translate1 = fullHeight / 2 - scale * (bb_y b + bb_height b / 2)
                in zoom_transform (zt_scale (zt_translate zoomIdentity translate0 translate1) scale) cv)
             else cv))"

text \<open>
  \<open>centerOnNode\<close>: \<open>x\<close> and \<open>y\<close> of a node are numbers by the declared type, so the fallbacks
  for a node without a numeric position do not arise. The pulse on the circle is drawing
  only.
\<close>

definition centerOnNode :: "ForceGraphData \<Rightarrow> string \<Rightarrow> Canvas \<Rightarrow> Canvas" where
  "centerOnNode data nodeId cv =
     (if \<not> cv_svg cv \<or> \<not> cv_zoom cv then cv
      else
        (case find (\<lambda>n. node_id n = nodeId) (fg_nodes data) of
           None \<Rightarrow> cv
         | Some targetNode \<Rightarrow>
             (let nodeX = node_x targetNode;
                  nodeY = node_y targetNode;
                  scale = 1.5;
                  translate0 = dim_width (cv_dimensions cv) / 2 - scale * nodeX;
                  translate1 = dim_height (cv_dimensions cv) / 2 - scale * nodeY
              in zoom_transform (zt_scale (zt_translate zoomIdentity translate0 translate1) scale) cv)))"

definition emptyFitFunction :: "Canvas \<Rightarrow> Canvas" where
  "emptyFitFunction cv =
     (if cv_zoom cv \<and> cv_svg cv
      then zoom_transform
             (zt_scale
                (zt_translate zoomIdentity (dim_width (cv_dimensions cv) / 2)
                   (dim_height (cv_dimensions cv) / 2)) 1) cv
      else cv)"

definition emptyCenterFunction :: "string \<Rightarrow> Canvas \<Rightarrow> Canvas" where
  "emptyCenterFunction nodeId cv = cv"

text \<open>
  The functions the data-update effect stores in \<open>onFitToScreen.current\<close> and
  \<open>onCenterOnNode.current\<close> for the snapshot \<open>data\<close>.
\<close>

definition fit_function :: "ForceGraphData \<Rightarrow> BBox option \<Rightarrow> Canvas \<Rightarrow> Canvas" where
  "fit_function data bounds cv =
     (if fg_nodes data = [] then emptyFitFunction cv else fitToScreen bounds cv)"

definition center_function :: "ForceGraphData \<Rightarrow> string \<Rightarrow> Canvas \<Rightarrow> Canvas" where
  "center_function data nodeId cv =
     (if fg_nodes data = [] then emptyCenterFunction nodeId cv else centerOnNode data nodeId cv)"

section \<open>Auxiliary notions and example data\<close>

text \<open>
  For a link incident to the node \<open>s\<close>, \<open>opposite s l\<close> is the id of its other endpoint
  together with the direction flag (\<open>True\<close> when \<open>s\<close> is the source of the link); it is
  \<open>None\<close> for a link that does not touch \<open>s\<close>. The case order is that of the two
  \<open>forEach\<close> bodies of the context menu.
\<close>

definition opposite :: "string \<Rightarrow> ForceGraphEdge \<Rightarrow> (string \<times> bool) option" where
  "opposite s l =
     (if node_id (link_source l) = s then Some (node_id (link_target l), True)
      else if node_id (link_target l) = s then Some (node_id (link_source l), False)
      else None)"

text \<open>
  A burst of calls for the window \<open>w\<close>: the times do not decrease and each call follows
  the one before it by less than \<open>w\<close>.
\<close>

fun burst :: "nat \<Rightarrow> (nat \<times> 'a) list \<Rightarrow> bool" where
  "burst w [] = True"
| "burst w [c] = True"
| "burst w (c # c' # cs) = (fst c \<le> fst c' \<and> fst c' < fst c + w \<and> burst w (c' # cs))"


definition registered :: "Simulation \<Rightarrow> bool" where
  "registered simulation =
     list_all (\<lambda>n. node_vx n \<noteq> None \<and> node_vy n \<noteq> None) (sim_nodes simulation)"


text \<open>An edge resolves against a node list when both its endpoints are ids of the list.\<close>

definition resolves :: "ForceGraphNode list \<Rightarrow> GraphEdge \<Rightarrow> bool" where
  "resolves ns e = (edge_source e \<in> node_id ` set ns \<and> edge_target e \<in> node_id ` set ns)"

text \<open>Nodes, links, a menu and two small graphs used as concrete inputs.\<close>

definition plain_node :: "string \<Rightarrow> real \<Rightarrow> real \<Rightarrow> ForceGraphNode" where
  "plain_node i px py =
     \<lparr>node_id = i, node_uid = None, node_label = i, node_type = ''default'',
      node_properties = [], node_x = px, node_y = py, node_fx = None, node_fy = None,
      node_createdAt = None, node_updatedAt = None, node_vx = None, node_vy = None,
      node_index = None\<rparr>"

definition plain_link :: "string \<Rightarrow> ForceGraphNode \<Rightarrow> ForceGraphNode \<Rightarrow> ForceGraphEdge" where
  "plain_link i s t =
     \<lparr>link_id = i, link_uid = None, link_source = s, link_target = t,
      link_label = ''connects'', link_properties = [], link_directed = True,
      link_createdAt = None, link_updatedAt = None\<rparr>"

definition menu_on :: "ForceGraphNode \<Rightarrow> ContextMenu" where
  "menu_on s =
     \<lparr>cm_show = True, cm_x = 10, cm_y = 20, cm_sourceNode = Some s, cm_targetNode = None\<rparr>"

definition example_graph :: ForceGraphData where
  "example_graph =
     \<lparr>fg_nodes = [plain_node ''a'' 0 0, plain_node ''b'' 10 0, plain_node ''c'' 0 10],
      fg_links = [plain_link ''e1'' (plain_node ''a'' 0 0) (plain_node ''b'' 10 0)]\<rparr>"

definition self_loop_graph :: ForceGraphData where
  "self_loop_graph =
     \<lparr>fg_nodes = [plain_node ''a'' 0 0, plain_node ''b'' 10 0],
      fg_links = [plain_link ''e1'' (plain_node ''a'' 0 0) (plain_node ''a'' 0 0)]\<rparr>"

text \<open>
  A snapshot in which node \<open>b\<close> carries the backend id \<open>m2\<close>; edge \<open>e1\<close> resolves, edge \<open>e2\<close>
  names \<open>b\<close> by an id that is not its effective id, edge \<open>e3\<close> names a node that does not
  exist.
\<close>

definition plain_edge :: "string \<Rightarrow> string \<Rightarrow> string \<Rightarrow> GraphEdge" where
  "plain_edge i s t =
     \<lparr>edge_id = i, edge_uid = None, edge_source = s, edge_target = t,
      edge_label = ''connects'', edge_properties = [], edge_directed = True,
      edge_createdAt = None, edge_updatedAt = None\<rparr>"

definition example_snapshot :: GraphData where
  "example_snapshot =
     \<lparr>gd_nodes = [plain_node ''a'' 0 0, (plain_node ''b'' 10 0)\<lparr>node_uid := Some ''m2''\<rparr>],
      gd_edges = [plain_edge ''e1'' ''a'' ''m2'', plain_edge ''e2'' ''a'' ''b'',
                  plain_edge ''e3'' ''zz'' ''a'']\<rparr>"

text \<open>
  \<open>initial_view\<close> holds the initial values of the \<open>useState\<close> calls of \<open>GraphView\<close>;
  \<open>example_view\<close> is a loaded view of \<open>example_graph\<close> with node \<open>a\<close> selected.
\<close>

definition initial_view :: GraphView where
  "initial_view =
     \<lparr>gv_graphData = \<lparr>fg_nodes = [], fg_links = []\<rparr>,
      gv_selectedItem = None,
      gv_searchQuery = [],
      gv_searchHighlights = [],
      gv_isPropertiesPanelOpen = False,
      gv_isLoading = True,
      gv_error = None,
      gv_confirmModal =
        \<lparr>modal_isOpen = False, modal_title = [], modal_message = [], modal_onConfirm = None\<rparr>\<rparr>"

definition example_view :: GraphView where
  "example_view =
     initial_view\<lparr>gv_graphData := example_graph,
                  gv_selectedItem := Some (SelNode (plain_node ''a'' 0 0)),
                  gv_isPropertiesPanelOpen := True,
                  gv_isLoading := False\<rparr>"


definition example_simulation :: Simulation where
  "example_simulation =
     \<lparr>sim_nodes = [(plain_node ''a'' 3 4)\<lparr>node_vx := Some 1, node_vy := Some 2\<rparr>,
                   (plain_node ''b'' 10 0)\<lparr>node_vx := Some 0, node_vy := Some 0\<rparr>],
      sim_alpha = 0.3, sim_alphaTarget = 0.3, sim_running = True\<rparr>"


definition example_canvas :: Canvas where
  "example_canvas =
     \<lparr>cv_svg = True, cv_zoom = True,
      cv_dimensions = \<lparr>dim_width = 800, dim_height = 600\<rparr>,
      cv_transform = zoomIdentity\<rparr>"

definition single_node_bounds :: BBox where
  "single_node_bounds = \<lparr>bb_x = -25, bb_y = -8, bb_width = 50, bb_height = 40\<rparr>"

definition empty_graph :: ForceGraphData where
  "empty_graph = \<lparr>fg_nodes = [], fg_links = []\<rparr>"

section \<open>Properties of the context-menu lists\<close>

lemma find_distinct_key:
  "distinct (map f xs) \<Longrightarrow> (find (\<lambda>x. f x = k) xs = Some x) = (x \<in> set xs \<and> f x = k)"
  by (induction xs) auto

lemma connected_step_acc:
  "connected_step s d acc l = acc @ connected_step s d [] l"
  by (simp add: connected_step_def Let_def split: option.splits)

lemma foldl_connected_step:
  "foldl (connected_step s d) acc ls = acc @ concat (map (connected_step s d []) ls)"
proof (induction ls arbitrary: acc)
  case Nil
  then show ?case by simp
next
  case (Cons l ls)
  have "foldl (connected_step s d) acc (l # ls) = foldl (connected_step s d) (connected_step s d acc l) ls"
    by simp
  also have "\<dots> = connected_step s d acc l @ concat (map (connected_step s d []) ls)"
    by (rule Cons.IH)
  also have "\<dots> = acc @ concat (map (connected_step s d []) (l # ls))"
    by (subst connected_step_acc) simp
  finally show ?case .
qed

lemma connected_step_opposite:
  "connected_step s d [] l =
     (case opposite s l of
        None \<Rightarrow> []
      | Some (i, b) \<Rightarrow>
          (case find (\<lambda>n. node_id n = i) (fg_nodes d) of
             None \<Rightarrow> []
           | Some n \<Rightarrow> [\<lparr>ci_node = n, ci_edgeId = link_id l, ci_isSource = b\<rparr>]))"
  by (simp add: connected_step_def opposite_def Let_def split: option.splits)

lemma connected_step_member:
  assumes "distinct (map node_id (fg_nodes d))"
  shows "(ci \<in> set (connected_step s d [] l)) =
         (ci_node ci \<in> set (fg_nodes d) \<and> ci_edgeId ci = link_id l
          \<and> opposite s l = Some (node_id (ci_node ci), ci_isSource ci))"
proof -
  have f: "\<And>k x. (find (\<lambda>n. node_id n = k) (fg_nodes d) = Some x) = (x \<in> set (fg_nodes d) \<and> node_id x = k)"
    using assms by (rule find_distinct_key)
  have g: "\<And>k x. (Some x = find (\<lambda>n. node_id n = k) (fg_nodes d)) = (x \<in> set (fg_nodes d) \<and> node_id x = k)"
    by (subst eq_commute) (rule f)
  show ?thesis
    unfolding connected_step_opposite
    by (cases ci) (auto simp: f g find_None_iff split: option.splits)
qed

lemma connected_member:
  assumes "distinct (map node_id (fg_nodes d))"
  shows "(ci \<in> set (getConnectedNodesInfo s d)) =
         (ci_node ci \<in> set (fg_nodes d)
          \<and> (\<exists>l \<in> set (fg_links d). ci_edgeId ci = link_id l
                \<and> opposite s l = Some (node_id (ci_node ci), ci_isSource ci)))"
  unfolding getConnectedNodesInfo_def foldl_connected_step
  using connected_step_member [OF assms] by auto

lemma foldl_connected_ids:
  "foldl (connected_ids_step s) A ls = A \<union> {i. \<exists>l \<in> set ls. \<exists>b. opposite s l = Some (i, b)}"
proof (induction ls arbitrary: A)
  case Nil
  then show ?case by simp
next
  case (Cons l ls)
  have step: "connected_ids_step s A l = A \<union> {i. \<exists>b. opposite s l = Some (i, b)}"
    by (auto simp: connected_ids_step_def opposite_def Let_def)
  show ?case
    unfolding foldl_Cons Cons.IH step by auto
qed

lemma unconnected_member:
  "(n \<in> set (getUnconnectedNodes s d)) =
     (n \<in> set (fg_nodes d) \<and> node_id n \<noteq> s
      \<and> \<not> (\<exists>l \<in> set (fg_links d). \<exists>b. opposite s l = Some (node_id n, b)))"
  by (auto simp: getUnconnectedNodes_def Let_def foldl_connected_ids)


text \<open>
  C6, as amended. For a node set with unique ids, a context source \<open>s\<close> and any link set:
  the connected list holds exactly the entries whose node is the other endpoint of a link
  incident to \<open>s\<close>, with that link's id and direction; the unconnected list holds exactly the
  remaining nodes other than \<open>s\<close>; \<open>s\<close> is never in the unconnected list; and \<open>s\<close> is in the
  connected list exactly when a self-loop on \<open>s\<close> exists.
\<close>

theorem context_menu_lists:
  assumes "distinct (map node_id (fg_nodes d))"
  shows "(\<forall>ci. ci \<in> set (getConnectedNodesInfo s d) \<longleftrightarrow>
            ci_node ci \<in> set (fg_nodes d)
            \<and> (\<exists>l \<in> set (fg_links d). ci_edgeId ci = link_id l
                 \<and> (if node_id (link_source l) = s
                      then ci_isSource ci \<and> node_id (ci_node ci) = node_id (link_target l)
                      else \<not> ci_isSource ci \<and> node_id (link_target l) = s
                           \<and> node_id (ci_node ci) = node_id (link_source l))))
       \<and> set (getUnconnectedNodes s d) =
           {n \<in> set (fg_nodes d). node_id n \<noteq> s
                \<and> n \<notin> ci_node ` set (getConnectedNodesInfo s d)}
       \<and> (\<forall>n. node_id n = s \<longrightarrow> n \<notin> set (getUnconnectedNodes s d))
       \<and> (\<forall>n. node_id n = s \<longrightarrow>
             (n \<in> ci_node ` set (getConnectedNodesInfo s d) \<longleftrightarrow>
              n \<in> set (fg_nodes d)
              \<and> (\<exists>l \<in> set (fg_links d). node_id (link_source l) = s
                    \<and> node_id (link_target l) = s)))"
proof -
  have op: "\<And>l i b. (opposite s l = Some (i, b)) =
      (if node_id (link_source l) = s then b \<and> i = node_id (link_target l)
       else \<not> b \<and> node_id (link_target l) = s \<and> i = node_id (link_source l))"
    by (auto simp: opposite_def)
  have conn: "\<And>ci. (ci \<in> set (getConnectedNodesInfo s d)) =
         (ci_node ci \<in> set (fg_nodes d)
          \<and> (\<exists>l \<in> set (fg_links d). ci_edgeId ci = link_id l
                \<and> opposite s l = Some (node_id (ci_node ci), ci_isSource ci)))"
    by (rule connected_member [OF assms])
  have img: "\<And>n. (n \<in> ci_node ` set (getConnectedNodesInfo s d)) =
         (n \<in> set (fg_nodes d) \<and> (\<exists>l \<in> set (fg_links d). \<exists>b. opposite s l = Some (node_id n, b)))"
  proof
    fix n
    assume "n \<in> ci_node ` set (getConnectedNodesInfo s d)"
    then obtain ci where "ci \<in> set (getConnectedNodesInfo s d)" "n = ci_node ci" by blast
    then show "n \<in> set (fg_nodes d) \<and> (\<exists>l \<in> set (fg_links d). \<exists>b. opposite s l = Some (node_id n, b))"
      using conn by blast
  next
    fix n
    assume a: "n \<in> set (fg_nodes d) \<and> (\<exists>l \<in> set (fg_links d). \<exists>b. opposite s l = Some (node_id n, b))"
    then obtain l b where l: "l \<in> set (fg_links d)" "opposite s l = Some (node_id n, b)" by blast
    let ?ci = "\<lparr>ci_node = n, ci_edgeId = link_id l, ci_isSource = b\<rparr>"
    have "?ci \<in> set (getConnectedNodesInfo s d)"
      using a l by (subst conn) auto
    moreover have "ci_node ?ci = n" by simp
    ultimately show "n \<in> ci_node ` set (getConnectedNodesInfo s d)" by (metis imageI)
  qed
  have p1: "\<forall>ci. ci \<in> set (getConnectedNodesInfo s d) \<longleftrightarrow>
            ci_node ci \<in> set (fg_nodes d)
            \<and> (\<exists>l \<in> set (fg_links d). ci_edgeId ci = link_id l
                 \<and> (if node_id (link_source l) = s
                      then ci_isSource ci \<and> node_id (ci_node ci) = node_id (link_target l)
                      else \<not> ci_isSource ci \<and> node_id (link_target l) = s
                           \<and> node_id (ci_node ci) = node_id (link_source l)))"
    unfolding conn op by simp
  have p2: "set (getUnconnectedNodes s d) =
           {n \<in> set (fg_nodes d). node_id n \<noteq> s
                \<and> n \<notin> ci_node ` set (getConnectedNodesInfo s d)}"
    unfolding img using unconnected_member [of _ s d] by blast
  have p3: "\<forall>n. node_id n = s \<longrightarrow> n \<notin> set (getUnconnectedNodes s d)"
    using unconnected_member [of _ s d] by blast
  have p4: "\<forall>n. node_id n = s \<longrightarrow>
             (n \<in> ci_node ` set (getConnectedNodesInfo s d) \<longleftrightarrow>
              n \<in> set (fg_nodes d)
              \<and> (\<exists>l \<in> set (fg_links d). node_id (link_source l) = s
                    \<and> node_id (link_target l) = s))"
  proof (intro allI impI)
    fix n :: ForceGraphNode
    assume n: "node_id n = s"
    have "(\<exists>l \<in> set (fg_links d). \<exists>b. opposite s l = Some (s, b)) =
          (\<exists>l \<in> set (fg_links d). node_id (link_source l) = s \<and> node_id (link_target l) = s)"
      by (auto simp: opposite_def split: if_splits)
    with n show "n \<in> ci_node ` set (getConnectedNodesInfo s d) \<longleftrightarrow>
              n \<in> set (fg_nodes d)
              \<and> (\<exists>l \<in> set (fg_links d). node_id (link_source l) = s
                    \<and> node_id (link_target l) = s)"
      unfolding img by simp
  qed
  from p1 p2 p3 p4 show ?thesis by blast
qed

text \<open>
  C6, as stated, fails: with a self-loop \<open>e1\<close> on \<open>a\<close>, the connected list of \<open>a\<close> contains
  \<open>a\<close> itself.
\<close>

theorem source_listed_as_connected_on_self_loop:
  "node_id (plain_node ''a'' 0 0) = ''a''
   \<and> getConnectedNodesInfo ''a'' self_loop_graph =
       [\<lparr>ci_node = plain_node ''a'' 0 0, ci_edgeId = ''e1'', ci_isSource = True\<rparr>]
   \<and> plain_node ''a'' 0 0 \<in> ci_node ` set (getConnectedNodesInfo ''a'' self_loop_graph)"
  by (simp add: getConnectedNodesInfo_def connected_step_def self_loop_graph_def
        plain_node_def plain_link_def Let_def)

text \<open>C6, as amended, at the graph with nodes \<open>a\<close>, \<open>b\<close>, \<open>c\<close> and the link from \<open>a\<close> to \<open>b\<close>.\<close>

theorem context_menu_lists_witness:
  "distinct (map node_id (fg_nodes example_graph))
   \<and> set (getUnconnectedNodes ''a'' example_graph) =
       {n \<in> set (fg_nodes example_graph). node_id n \<noteq> ''a''
            \<and> n \<notin> ci_node ` set (getConnectedNodesInfo ''a'' example_graph)}"
proof -
  have h: "distinct (map node_id (fg_nodes example_graph))"
    by (simp add: example_graph_def plain_node_def)
  from context_menu_lists [OF h, of "''a''"] h show ?thesis by blast
qed

section \<open>Properties of edge creation from the context menu\<close>

text \<open>
  C10. A click on a context-menu entry emits \<open>onCreateEdge\<close> only for a target whose id
  differs from the id of the menu's source node, so the event never carries equal source
  and target ids; when the ids are equal nothing is emitted. The menu is closed in every
  case.
\<close>

theorem create_edge_only_between_distinct:
  "(\<forall>a b. CreateEdge a b \<in> set (fst (handleCreateEdgeFromContext t cm)) \<longrightarrow>
      a \<noteq> b \<and> b = node_id t \<and> (\<exists>s. cm_sourceNode cm = Some s \<and> a = node_id s))
   \<and> (cm_sourceNode cm = Some s \<longrightarrow> node_id t = node_id s \<longrightarrow>
        handleCreateEdgeFromContext t cm = ([], cm\<lparr>cm_show := False\<rparr>))
   \<and> (cm_sourceNode cm = Some s \<longrightarrow> node_id t \<noteq> node_id s \<longrightarrow>
        fst (handleCreateEdgeFromContext t cm) = [CreateEdge (node_id s) (node_id t)])
   \<and> cm_show (snd (handleCreateEdgeFromContext t cm)) = False"
  by (cases "cm_sourceNode cm") (simp_all add: handleCreateEdgeFromContext_def)

text \<open>
  C10, at a concrete menu opened on node \<open>a\<close>: clicking \<open>a\<close> itself emits nothing and
  closes the menu; clicking \<open>b\<close> emits the request for the edge from \<open>a\<close> to \<open>b\<close>.
\<close>

theorem create_edge_only_between_distinct_witness:
  "handleCreateEdgeFromContext (plain_node ''a'' 0 0) (menu_on (plain_node ''a'' 0 0))
     = ([], (menu_on (plain_node ''a'' 0 0))\<lparr>cm_show := False\<rparr>)
   \<and> fst (handleCreateEdgeFromContext (plain_node ''b'' 1 1) (menu_on (plain_node ''a'' 0 0)))
     = [CreateEdge ''a'' ''b'']"
proof -
  have src: "cm_sourceNode (menu_on (plain_node ''a'' 0 0)) = Some (plain_node ''a'' 0 0)"
    by (simp add: menu_on_def)
  have same: "node_id (plain_node ''a'' 0 0) = node_id (plain_node ''a'' 0 0)"
    by simp
  have diff: "node_id (plain_node ''b'' 1 1) \<noteq> node_id (plain_node ''a'' 0 0)"
    by (simp add: plain_node_def)
  have ids: "node_id (plain_node ''a'' 0 0) = ''a''" "node_id (plain_node ''b'' 1 1) = ''b''"
    by (simp_all add: plain_node_def)
  from create_edge_only_between_distinct
         [of "plain_node ''a'' 0 0" "menu_on (plain_node ''a'' 0 0)" "plain_node ''a'' 0 0"] src same
  have closed: "handleCreateEdgeFromContext (plain_node ''a'' 0 0) (menu_on (plain_node ''a'' 0 0))
     = ([], (menu_on (plain_node ''a'' 0 0))\<lparr>cm_show := False\<rparr>)"
    by blast
  from create_edge_only_between_distinct
         [of "plain_node ''b'' 1 1" "menu_on (plain_node ''a'' 0 0)" "plain_node ''a'' 0 0"] src diff
  have "fst (handleCreateEdgeFromContext (plain_node ''b'' 1 1) (menu_on (plain_node ''a'' 0 0)))
     = [CreateEdge (node_id (plain_node ''a'' 0 0)) (node_id (plain_node ''b'' 1 1))]"
    by blast
  with closed ids show ?thesis by simp
qed

section \<open>Properties of deletion and selection\<close>

lemma handleDeleteItem_arms:
  "gv_selectedItem st = Some item \<Longrightarrow>
     modal_onConfirm (gv_confirmModal (handleDeleteItem st)) = Some item
     \<and> gv_graphData (handleDeleteItem st) = gv_graphData st
     \<and> gv_selectedItem (handleDeleteItem st) = Some item"
  by (simp add: handleDeleteItem_def)

lemma onConfirm_node:
  "onConfirm (SelNode a) (Resolved u) st =
     st\<lparr>gv_graphData :=
          \<lparr>fg_nodes = filter (\<lambda>node. node_id node \<noteq> node_id a) (fg_nodes (gv_graphData st)),
           fg_links = filter (\<lambda>link. node_id (link_source link) \<noteq> node_id a
                                \<and> node_id (link_target link) \<noteq> node_id a)
                        (fg_links (gv_graphData st))\<rparr>,
        gv_selectedItem := None,
        gv_isPropertiesPanelOpen := False,
        gv_confirmModal := (gv_confirmModal st)\<lparr>modal_isOpen := False\<rparr>\<rparr>"
  by (simp add: onConfirm_def Let_def)

text \<open>
  C9. Let the confirmation dialog have been opened by \<open>handleDeleteItem\<close> while node \<open>a\<close> was
  selected, and let \<open>st\<close> be any later state that still shows this dialog. When the deletion
  is confirmed and the backend accepts it, the graph data keeps, in order and unchanged,
  exactly the nodes whose id is not that of \<open>a\<close> and exactly the links with neither
  endpoint \<open>a\<close>; the selection is cleared.
\<close>

theorem delete_node_removes_node_and_incident_edges:
  assumes "gv_selectedItem st0 = Some (SelNode a)"
      and "gv_confirmModal st = gv_confirmModal (handleDeleteItem st0)"
      and "st' = confirm_modal (Resolved ()) st"
  shows "fg_nodes (gv_graphData st') =
           filter (\<lambda>n. node_id n \<noteq> node_id a) (fg_nodes (gv_graphData st))
       \<and> fg_links (gv_graphData st') =
           filter (\<lambda>l. node_id (link_source l) \<noteq> node_id a \<and> node_id (link_target l) \<noteq> node_id a)
             (fg_links (gv_graphData st))
       \<and> gv_selectedItem st' = None"
proof -
  from assms(1) have "modal_onConfirm (gv_confirmModal (handleDeleteItem st0)) = Some (SelNode a)"
    using handleDeleteItem_arms by blast
  with assms(2) have "modal_onConfirm (gv_confirmModal st) = Some (SelNode a)"
    by simp
  then have "st' = onConfirm (SelNode a) (Resolved ()) st"
    using assms(3) by (simp add: confirm_modal_def)
  then show ?thesis
    by (simp add: onConfirm_node)
qed

text \<open>
  C9 on \<open>example_view\<close>: deleting the selected node \<open>a\<close> leaves the nodes \<open>b\<close> and \<open>c\<close> and
  removes the link \<open>e1\<close> from \<open>a\<close> to \<open>b\<close>.
\<close>

theorem delete_node_removes_node_and_incident_edges_witness:
  "fg_nodes (gv_graphData (confirm_modal (Resolved ()) (handleDeleteItem example_view)))
     = [plain_node ''b'' 10 0, plain_node ''c'' 0 10]
   \<and> fg_links (gv_graphData (confirm_modal (Resolved ()) (handleDeleteItem example_view))) = []
   \<and> gv_selectedItem (confirm_modal (Resolved ()) (handleDeleteItem example_view)) = None"
proof -
  have sel: "gv_selectedItem example_view = Some (SelNode (plain_node ''a'' 0 0))"
    by (simp add: example_view_def)
  have gd: "gv_graphData (handleDeleteItem example_view) = example_graph"
    using handleDeleteItem_arms [OF sel] by (simp add: example_view_def)
  have n: "filter (\<lambda>n. node_id n \<noteq> node_id (plain_node ''a'' 0 0)) (fg_nodes example_graph)
             = [plain_node ''b'' 10 0, plain_node ''c'' 0 10]"
    by (simp add: example_graph_def plain_node_def)
  have l: "filter (\<lambda>l. node_id (link_source l) \<noteq> node_id (plain_node ''a'' 0 0)
                      \<and> node_id (link_target l) \<noteq> node_id (plain_node ''a'' 0 0))
             (fg_links example_graph) = []"
    by (simp add: example_graph_def plain_node_def plain_link_def)
  from delete_node_removes_node_and_incident_edges [OF sel refl refl] gd n l
  show ?thesis by simp
qed

text \<open>
  C8, as amended. The state holds one optional selected item. A click on a node or on an
  edge selects it; a click on the empty background runs \<open>handleCreateNode\<close>, which selects
  the created node when the backend accepts the creation and leaves the selection as it
  was otherwise; closing the properties panel clears the selection; so does the confirmed
  deletion of the selected item, and the deletion of the selected edge from the context
  menu.
\<close>

theorem selection_transitions:
  "gv_selectedItem (handleNodeClick n st) = Some (SelNode n)
   \<and> gv_selectedItem (handleEdgeClick e st) = Some (SelEdge (basic_edge e))
   \<and> gv_selectedItem (handleCreateNode (Resolved n) st) = Some (SelNode n)
   \<and> gv_selectedItem (handleCreateNode (Rejected err) st) = gv_selectedItem st
   \<and> gv_selectedItem (handleClosePropertiesPanel st) = None
   \<and> (gv_selectedItem st = Some item \<longrightarrow>
        gv_selectedItem (confirm_modal (Resolved ()) (handleDeleteItem st)) = None)
   \<and> (gv_selectedItem st = Some (SelEdge ge) \<longrightarrow>
        gv_selectedItem (handleDeleteEdgeFromContext (edge_id ge) (Resolved ()) st) = None)"
proof -
  have del: "gv_selectedItem st = Some item \<longrightarrow>
        gv_selectedItem (confirm_modal (Resolved ()) (handleDeleteItem st)) = None"
    by (simp add: confirm_modal_def handleDeleteItem_def onConfirm_def Let_def)
  have ctx: "gv_selectedItem st = Some (SelEdge ge) \<longrightarrow>
        gv_selectedItem (handleDeleteEdgeFromContext (edge_id ge) (Resolved ()) st) = None"
    by (simp add: handleDeleteEdgeFromContext_def Let_def)
  show ?thesis
    using del ctx
    by (simp add: handleNodeClick_def handleEdgeClick_def handleCreateNode_def
          handleClosePropertiesPanel_def)
qed

text \<open>
  C8, as stated, fails: with node \<open>a\<close> selected, a click on the empty background does not
  clear the selection; the new node is selected.
\<close>

theorem background_click_selects_new_node:
  "gv_selectedItem (handleCreateNode (Resolved (plain_node ''n'' 5 5)) example_view) \<noteq> None"
  by (simp add: handleCreateNode_def)

text \<open>C8, as amended, on \<open>example_view\<close>.\<close>

theorem selection_transitions_witness:
  "gv_selectedItem (confirm_modal (Resolved ()) (handleDeleteItem example_view)) = None
   \<and> gv_selectedItem (handleCreateNode (Resolved (plain_node ''n'' 5 5)) example_view)
       = Some (SelNode (plain_node ''n'' 5 5))"
proof -
  have sel: "gv_selectedItem example_view = Some (SelNode (plain_node ''a'' 0 0))"
    by (simp add: example_view_def)
  from selection_transitions [of "plain_node ''n'' 5 5" example_view _ _ "SelNode (plain_node ''a'' 0 0)"] sel
  show ?thesis by blast
qed

section \<open>Properties of the snapshot conversion\<close>

lemma fold_node_map_dom:
  "dom (fold (\<lambda>n m. m(node_id n \<mapsto> n)) ns m0) = dom m0 \<union> node_id ` set ns"
  by (induction ns arbitrary: m0) auto

lemma fold_node_map_Some:
  "fold (\<lambda>n m. m(node_id n \<mapsto> n)) ns m0 k = Some v \<Longrightarrow>
     m0 k = Some v \<or> (v \<in> set ns \<and> node_id v = k)"
proof (induction ns arbitrary: m0)
  case Nil
  then show ?case by simp
next
  case (Cons n ns)
  from Cons.IH [of "m0(node_id n \<mapsto> n)"] Cons.prems
  have "(m0(node_id n \<mapsto> n)) k = Some v \<or> (v \<in> set ns \<and> node_id v = k)"
    by simp
  then show ?case
    by (auto split: if_splits)
qed

lemma node_map_dom: "dom (node_map ns) = node_id ` set ns"
  by (simp add: node_map_def fold_node_map_dom)

lemma node_map_Some: "node_map ns k = Some v \<Longrightarrow> v \<in> set ns \<and> node_id v = k"
  using fold_node_map_Some [of ns Map.empty k v] by (simp add: node_map_def)

lemma convert_edge_dropped:
  "\<not> resolves ns e \<Longrightarrow> convert_edge (node_map ns) e = Inl (edge_warning e)"
proof -
  assume "\<not> resolves ns e"
  then have "node_map ns (edge_source e) = None \<or> node_map ns (edge_target e) = None"
    unfolding resolves_def using node_map_dom [of ns] by (metis domIff)
  then show ?thesis
    by (auto simp: convert_edge_def split: option.splits)
qed

lemma convert_edge_kept:
  assumes "resolves ns e"
  shows "\<exists>l. convert_edge (node_map ns) e = Inr l
             \<and> basic_edge l = e\<lparr>edge_id := or_string (edge_uid e) (edge_id e)\<rparr>
             \<and> link_source l \<in> set ns \<and> link_target l \<in> set ns"
proof -
  from assms obtain s t where s: "node_map ns (edge_source e) = Some s"
    and t: "node_map ns (edge_target e) = Some t"
    unfolding resolves_def using node_map_dom [of ns] by (metis domD)
  from node_map_Some [OF s] node_map_Some [OF t] s t show ?thesis
    by (simp add: convert_edge_def basic_edge_def)
qed

lemma converted_edges:
  "map basic_edge [l. Inr l \<leftarrow> map (convert_edge (node_map ns)) es]
     = map (\<lambda>e. e\<lparr>edge_id := or_string (edge_uid e) (edge_id e)\<rparr>) (filter (resolves ns) es)
   \<and> [w. Inl w \<leftarrow> map (convert_edge (node_map ns)) es]
     = map edge_warning (filter (\<lambda>e. \<not> resolves ns e) es)
   \<and> (\<forall>l \<in> set [l. Inr l \<leftarrow> map (convert_edge (node_map ns)) es].
         link_source l \<in> set ns \<and> link_target l \<in> set ns)"
proof (induction es)
  case Nil
  then show ?case by simp
next
  case (Cons e es)
  show ?case
  proof (cases "resolves ns e")
    case True
    from convert_edge_kept [OF True] obtain l where "convert_edge (node_map ns) e = Inr l"
      "basic_edge l = e\<lparr>edge_id := or_string (edge_uid e) (edge_id e)\<rparr>"
      "link_source l \<in> set ns" "link_target l \<in> set ns" by blast
    with True Cons.IH show ?thesis by simp
  next
    case False
    from convert_edge_dropped [OF False] False Cons.IH show ?thesis by simp
  qed
qed

text \<open>
  C3. For every snapshot, with the node ids taken as the conversion assigns them
  (\<open>_id || id\<close>): the converted nodes are the snapshot's nodes; the links kept are, in
  order, exactly the edges whose source and target both are ids of converted nodes, and
  their endpoints are converted nodes; every other edge is dropped, with one console
  warning each; loading the snapshot stores the converted data, sets no error and writes
  these warnings.
\<close>

theorem dangling_edges_dropped_with_warning:
  "fg_nodes (fst (convertToForceGraphData data)) = map to_force_node (gd_nodes data)
   \<and> map basic_edge (fg_links (fst (convertToForceGraphData data)))
       = map (\<lambda>e. e\<lparr>edge_id := or_string (edge_uid e) (edge_id e)\<rparr>)
           (filter (\<lambda>e. edge_source e \<in> node_id ` set (fg_nodes (fst (convertToForceGraphData data)))
                      \<and> edge_target e \<in> node_id ` set (fg_nodes (fst (convertToForceGraphData data))))
              (gd_edges data))
   \<and> snd (convertToForceGraphData data)
       = map edge_warning
           (filter (\<lambda>e. \<not> (edge_source e \<in> node_id ` set (fg_nodes (fst (convertToForceGraphData data)))
                      \<and> edge_target e \<in> node_id ` set (fg_nodes (fst (convertToForceGraphData data)))))
              (gd_edges data))
   \<and> (\<forall>l \<in> set (fg_links (fst (convertToForceGraphData data))).
         link_source l \<in> set (fg_nodes (fst (convertToForceGraphData data)))
         \<and> link_target l \<in> set (fg_nodes (fst (convertToForceGraphData data))))
   \<and> gv_graphData (fst (loadGraphData (Resolved data) st)) = fst (convertToForceGraphData data)
   \<and> gv_error (fst (loadGraphData (Resolved data) st)) = None
   \<and> snd (loadGraphData (Resolved data) st) = snd (convertToForceGraphData data)"
  using converted_edges [of "map to_force_node (gd_nodes data)" "gd_edges data"]
  unfolding resolves_def
  by (simp add: convertToForceGraphData_def loadGraphData_def Let_def)

text \<open>
  C3 on \<open>example_snapshot\<close>: edge \<open>e1\<close> is kept; \<open>e2\<close> and \<open>e3\<close> are dropped with their
  warnings.
\<close>

theorem dangling_edges_dropped_with_warning_witness:
  "map basic_edge (fg_links (fst (convertToForceGraphData example_snapshot)))
     = [plain_edge ''e1'' ''a'' ''m2'']
   \<and> snd (convertToForceGraphData example_snapshot)
     = [''Edge references non-existent node: a -> b'',
        ''Edge references non-existent node: zz -> a'']"
proof -
  have ns: "fg_nodes (fst (convertToForceGraphData example_snapshot))
              = map to_force_node (gd_nodes example_snapshot)"
    by (simp add: convertToForceGraphData_def Let_def)
  have ids: "node_id ` set (map to_force_node (gd_nodes example_snapshot)) = {''a'', ''m2''}"
    by (simp add: example_snapshot_def to_force_node_def plain_node_def or_string_def)
  have es: "gd_edges example_snapshot
              = [plain_edge ''e1'' ''a'' ''m2'', plain_edge ''e2'' ''a'' ''b'',
                 plain_edge ''e3'' ''zz'' ''a'']"
    by (simp add: example_snapshot_def)
  have src: "edge_source (plain_edge i s t) = s" "edge_target (plain_edge i s t) = t" for i s t
    by (simp_all add: plain_edge_def)
  have norm: "(plain_edge i s t)\<lparr>edge_id := or_string (edge_uid (plain_edge i s t)) (edge_id (plain_edge i s t))\<rparr>
                = plain_edge i s t" for i s t
    by (simp add: plain_edge_def or_string_def)
  have warn: "edge_warning (plain_edge i s t) = ''Edge references non-existent node: '' @ s @ '' -> '' @ t" for i s t
    by (simp add: edge_warning_def plain_edge_def)
  from dangling_edges_dropped_with_warning [of example_snapshot]
  show ?thesis
    unfolding ns ids es by (simp add: src norm warn)
qed

section \<open>Properties of the debounced position update\<close>

lemma run_calls_burst:
  assumes "burst w (c # cs)"
      and "timeoutId = None \<or> (\<exists>d b. timeoutId = Some (Timer d b) \<and> fst c < d)"
  shows "run_calls w (c # cs) timeoutId = [(fst (last (c # cs)) + w, snd (last (c # cs)))]"
  using assms
proof (induction cs arbitrary: c timeoutId)
  case Nil
  then show ?case
    by (cases c) (auto simp: debounced_def)
next
  case (Cons c' cs)
  from Cons.prems(1) have b: "burst w (c' # cs)" and lt: "fst c' < fst c + w"
    by simp_all
  have next_timer: "\<exists>d b. debounced w (fst c) (snd c) x = Some (Timer d b) \<and> fst c' < d" for x
    using lt by (simp add: debounced_def)
  have step: "run_calls w (c # c' # cs) timeoutId
                = run_calls w (c' # cs) (debounced w (fst c) (snd c) None)"
    using Cons.prems(2) by (cases c) (auto simp: debounced_def)
  have "run_calls w (c' # cs) (debounced w (fst c) (snd c) None)
          = [(fst (last (c' # cs)) + w, snd (last (c' # cs)))]"
    using Cons.IH [OF b] next_timer by blast
  with step show ?case by simp
qed

text \<open>
  C4. For every non-empty burst of calls of the debounced position update (each call
  less than 500 ms after the one before it), whatever nodes the calls are for, exactly
  one position update goes out: it carries the id, \<open>x\<close> and \<open>y\<close> of the last call and goes
  out 500 ms after that call.
\<close>

theorem debounce_burst_fires_once_with_last:
  assumes "calls \<noteq> []" and "burst 500 calls"
  shows "position_updates calls =
           [(fst (last calls) + 500,
             UpdateNode (fst (snd (last calls))) (fst (snd (snd (last calls))))
               (snd (snd (snd (last calls)))))]"
proof -
  from assms(1) obtain c cs where cs: "calls = c # cs" by (cases calls) auto
  with assms(2) have "run_calls 500 calls None = [(fst (last calls) + 500, snd (last calls))]"
    using run_calls_burst [of 500 c cs None] by simp
  then show ?thesis
    by (simp add: position_updates_def case_prod_beta)
qed

text \<open>
  C4 on three calls at 0, 100 and 550 ms, the last for another node: one update, at
  1050 ms, with the arguments of the last call.
\<close>

theorem debounce_burst_fires_once_with_last_witness:
  "position_updates [(0, ''a'', 1, 1), (100, ''a'', 2, 2), (550, ''b'', 3, 4)]
     = [(1050, UpdateNode ''b'' 3 4)]"
proof -
  have ne: "[(0::nat, ''a'', 1::real, 1::real), (100, ''a'', 2, 2), (550, ''b'', 3, 4)] \<noteq> []"
    by simp
  have b: "burst 500 [(0::nat, ''a'', 1::real, 1::real), (100, ''a'', 2, 2), (550, ''b'', 3, 4)]"
    by simp
  from debounce_burst_fires_once_with_last [OF ne b] show ?thesis by simp
qed

section \<open>Properties of reconciliation\<close>

lemma carry_forward_id: "node_id (carry_forward ex n) = node_id n"
  by (simp add: carry_forward_def split: option.splits)

lemma carry_forward_found:
  assumes "find (\<lambda>e. node_id e = node_id n) ex = Some e"
  shows "node_x (carry_forward ex n) = node_x e"
    and "node_y (carry_forward ex n) = node_y e"
    and "node_vx (carry_forward ex n) = Some (or_zero (node_vx e))"
    and "node_vy (carry_forward ex n) = Some (or_zero (node_vy e))"
    and "node_fx (carry_forward ex n) = node_fx e"
    and "node_fy (carry_forward ex n) = node_fy e"
    and "node_label (carry_forward ex n) = node_label n"
    and "node_type (carry_forward ex n) = node_type n"
  using assms by (simp_all add: carry_forward_def)

lemma or_zero_Some: "or_zero (Some v) = v"
  by (simp add: or_zero_def)

lemma register_node_fields:
  "node_id (register_node i n) = node_id n"
  "node_fx (register_node i n) = node_fx n"
  "node_fy (register_node i n) = node_fy n"
  "node_x (register_node i n) = (case node_fx n of None \<Rightarrow> node_x n | Some f \<Rightarrow> f)"
  "node_y (register_node i n) = (case node_fy n of None \<Rightarrow> node_y n | Some f \<Rightarrow> f)"
  "node_vx (register_node i n) \<noteq> None"
  "node_vy (register_node i n) \<noteq> None"
  "node_vx n = Some v \<Longrightarrow> node_vy n = Some w \<Longrightarrow> node_vx (register_node i n) = Some v"
  "node_vx n = Some v \<Longrightarrow> node_vy n = Some w \<Longrightarrow> node_vy (register_node i n) = Some w"
  by (simp_all add: register_node_def Let_def)

lemma register_nodes_length: "length (register_nodes ns) = length ns"
  by (simp add: register_nodes_def)

lemma register_nodes_nth:
  "i < length ns \<Longrightarrow> register_nodes ns ! i = register_node i (ns ! i)"
  by (simp add: register_nodes_def nth_enumerate_eq)

lemma register_nodes_member:
  "n \<in> set (register_nodes ns) \<Longrightarrow> \<exists>i m. m \<in> set ns \<and> n = register_node i m"
proof -
  assume "n \<in> set (register_nodes ns)"
  then obtain i where "i < length ns" "n = register_nodes ns ! i"
    by (auto simp: in_set_conv_nth register_nodes_length)
  then have "ns ! i \<in> set ns" "n = register_node i (ns ! i)"
    by (simp_all add: register_nodes_nth)
  then show ?thesis by blast
qed

lemma update_simulation_nodes:
  "fg_nodes data \<noteq> [] \<Longrightarrow>
     sim_nodes (update_simulation data sim)
       = register_nodes (map (carry_forward (sim_nodes sim)) (fg_nodes data))"
  by (simp add: update_simulation_def reconciled_def Let_def)


lemma registered_nodes: "registered sim = (\<forall>n \<in> set (sim_nodes sim). node_vx n \<noteq> None \<and> node_vy n \<noteq> None)"
  by (simp add: registered_def list_all_iff)

lemma registered_update:
  "fg_nodes data \<noteq> [] \<Longrightarrow> registered (update_simulation data sim)"
proof -
  assume ne: "fg_nodes data \<noteq> []"
  have "node_vx n \<noteq> None \<and> node_vy n \<noteq> None"
    if "n \<in> set (sim_nodes (update_simulation data sim))" for n
  proof -
    from that obtain i m where "n = register_node i m"
      unfolding update_simulation_nodes [OF ne] using register_nodes_member by blast
    then show ?thesis
      by (simp add: register_node_fields)
  qed
  then show ?thesis
    by (simp add: registered_nodes)
qed

lemma tick_node_velocity:
  "node_vx (tick_node dv n) \<noteq> None" "node_vy (tick_node dv n) \<noteq> None"
  by (simp_all add: tick_node_def Let_def split: option.splits)

lemma registered_tick: "registered (tick fs sim)"
  unfolding registered_nodes
proof
  fix n
  assume "n \<in> set (sim_nodes (tick fs sim))"
  then obtain m where "n = tick_node (fs (sim_nodes sim) m) m"
    by (auto simp: tick_def)
  then show "node_vx n \<noteq> None \<and> node_vy n \<noteq> None"
    using tick_node_velocity by blast
qed

lemma registered_on_node:
  assumes "registered sim"
      and "\<And>d. node_vx (f d) = node_vx d \<and> node_vy (f d) = node_vy d"
  shows "registered (on_node k f sim)"
proof -
  have base: "node_vx m \<noteq> None \<and> node_vy m \<noteq> None" if "m \<in> set (sim_nodes sim)" for m
    using assms(1) that by (simp add: registered_nodes)
  have "node_vx n \<noteq> None \<and> node_vy n \<noteq> None"
    if "n \<in> set ((sim_nodes sim)[k := f (sim_nodes sim ! k)])" for n
  proof (cases "k < length (sim_nodes sim)")
    case True
    then have kmem: "sim_nodes sim ! k \<in> set (sim_nodes sim)"
      by simp
    from that have "n \<in> insert (f (sim_nodes sim ! k)) (set (sim_nodes sim))"
      by (rule subsetD [OF set_update_subset_insert])
    then consider "n = f (sim_nodes sim ! k)" | "n \<in> set (sim_nodes sim)"
      by blast
    then show ?thesis
    proof cases
      case 1
      with base [OF kmem] assms(2) [of "sim_nodes sim ! k"] show ?thesis
        by simp
    next
      case 2
      then show ?thesis by (rule base)
    qed
  next
    case False
    then have "length (sim_nodes sim) \<le> k"
      by simp
    then have "(sim_nodes sim)[k := f (sim_nodes sim ! k)] = sim_nodes sim"
      by (rule list_update_beyond)
    with that show ?thesis
      using base by simp
  qed
  then show ?thesis
    by (simp add: registered_nodes on_node_def)
qed

lemma registered_drag:
  assumes "registered sim"
  shows "registered (dragstarted ev k sim)"
    and "registered (dragged ev k sim)"
    and "registered (dragended ev k sim)"
proof -
  have a: "registered (if c then sim\<lparr>sim_alphaTarget := t, sim_running := True\<rparr> else sim)" for c t
    using assms by (simp add: registered_def)
  have b: "registered (if c then sim\<lparr>sim_alphaTarget := t\<rparr> else sim)" for c t
    using assms by (simp add: registered_def)
  show "registered (dragstarted ev k sim)"
    unfolding dragstarted_def by (rule registered_on_node [OF a]) simp
  show "registered (dragged ev k sim)"
    unfolding dragged_def by (rule registered_on_node [OF assms]) simp
  show "registered (dragended ev k sim)"
    unfolding dragended_def by (rule registered_on_node [OF b]) simp
qed

text \<open>
  C1. Let the simulation hold registered nodes (every node carries its velocity; this holds
  from the first registration on, see \<open>registered_update\<close>, \<open>registered_tick\<close> and
  \<open>registered_drag\<close>). When a new snapshot is reconciled, every node of the snapshot whose
  id is found among the prior simulation nodes takes over \<open>x\<close>, \<open>y\<close>, \<open>vx\<close>, \<open>vy\<close>, \<open>fx\<close> and
  \<open>fy\<close> of that prior node, unchanged, and keeps its own id; the nodes so reconciled are the
  ones then registered with the simulation.
\<close>

theorem reconciliation_carries_state_forward:
  assumes "registered sim"
      and "i < length (fg_nodes data)"
      and "find (\<lambda>e. node_id e = node_id (fg_nodes data ! i)) (sim_nodes sim) = Some e"
  shows "length (reconciled data sim) = length (fg_nodes data)
       \<and> node_id (reconciled data sim ! i) = node_id (fg_nodes data ! i)
       \<and> node_x (reconciled data sim ! i) = node_x e
       \<and> node_y (reconciled data sim ! i) = node_y e
       \<and> node_vx (reconciled data sim ! i) = node_vx e
       \<and> node_vy (reconciled data sim ! i) = node_vy e
       \<and> node_fx (reconciled data sim ! i) = node_fx e
       \<and> node_fy (reconciled data sim ! i) = node_fy e
       \<and> sim_nodes (update_simulation data sim) = register_nodes (reconciled data sim)"
proof -
  from assms(2) have ne: "fg_nodes data \<noteq> []" by auto
  from assms(3) have "e \<in> set (sim_nodes sim)"
    by (auto simp: find_Some_iff)
  with assms(1) obtain v w where vw: "node_vx e = Some v" "node_vy e = Some w"
    by (auto simp: registered_nodes)
  have nth: "reconciled data sim ! i = carry_forward (sim_nodes sim) (fg_nodes data ! i)"
    using assms(2) by (simp add: reconciled_def)
  have len: "length (reconciled data sim) = length (fg_nodes data)"
    by (simp add: reconciled_def)
  have reg: "sim_nodes (update_simulation data sim) = register_nodes (reconciled data sim)"
    using ne by (simp add: update_simulation_def Let_def)
  show ?thesis
    unfolding nth using len reg vw
    by (simp add: carry_forward_id carry_forward_found [OF assms(3)] or_zero_Some)
qed

text \<open>
  C1 on \<open>example_simulation\<close> and \<open>example_graph\<close>: node \<open>a\<close> arrives with position (0, 0)
  and is registered at (3, 4) with velocity (1, 2), as the simulation had it.
\<close>

theorem reconciliation_carries_state_forward_witness:
  "registered example_simulation
   \<and> node_id (reconciled example_graph example_simulation ! 0) = ''a''
   \<and> node_x (reconciled example_graph example_simulation ! 0) = 3
   \<and> node_y (reconciled example_graph example_simulation ! 0) = 4
   \<and> node_vx (reconciled example_graph example_simulation ! 0) = Some 1
   \<and> node_vy (reconciled example_graph example_simulation ! 0) = Some 2
   \<and> node_fx (reconciled example_graph example_simulation ! 0) = None"
proof -
  let ?e = "(plain_node ''a'' 3 4)\<lparr>node_vx := Some 1, node_vy := Some 2\<rparr>"
  have r: "registered example_simulation"
    by (simp add: registered_def example_simulation_def)
  have i: "0 < length (fg_nodes example_graph)"
    by (simp add: example_graph_def)
  have n: "node_id (fg_nodes example_graph ! 0) = ''a''"
    by (simp add: example_graph_def plain_node_def)
  have f: "find (\<lambda>e. node_id e = node_id (fg_nodes example_graph ! 0)) (sim_nodes example_simulation)
             = Some ?e"
    unfolding n by (simp add: example_simulation_def plain_node_def)
  have e: "node_x ?e = 3" "node_y ?e = 4" "node_fx ?e = None"
    "node_vx ?e = Some 1" "node_vy ?e = Some 2"
    by (simp_all add: plain_node_def)
  from reconciliation_carries_state_forward [OF r i f] r n e show ?thesis
    by simp
qed

section \<open>Properties of dragging\<close>







lemma on_node_nth:
  "k < length (sim_nodes sim) \<Longrightarrow> sim_nodes (on_node k f sim) ! k = f (sim_nodes sim ! k)"
  by (simp add: on_node_def)






section \<open>Properties of the view functions\<close>

text \<open>
  C2 fails on the code. On the 800 by 600 canvas, fitting a bounding box of 50 by 40 gives
  the scale 0.8 * min (800 / 50) (600 / 40) = 12, outside the scale extent [0.1, 5].
\<close>

theorem fit_scale_exceeds_extent:
  "zt_k (cv_transform (fitToScreen (Some single_node_bounds) example_canvas)) = 12
   \<and> \<not> (fst scaleExtent \<le> zt_k (cv_transform (fitToScreen (Some single_node_bounds) example_canvas))
        \<and> zt_k (cv_transform (fitToScreen (Some single_node_bounds) example_canvas)) \<le> snd scaleExtent)"
  by (simp add: fitToScreen_def example_canvas_def single_node_bounds_def zoom_transform_def
        zt_scale_def zt_translate_def zoomIdentity_def scaleExtent_def Let_def)

text \<open>
  C2 at the same input, read off the theorem: the fitted scale is above the upper end of
  the scale extent.
\<close>

theorem fit_scale_exceeds_extent_witness:
  "snd scaleExtent < zt_k (cv_transform (fitToScreen (Some single_node_bounds) example_canvas))"
  using fit_scale_exceeds_extent by (simp add: scaleExtent_def)

text \<open>
  C7, as amended. For an empty snapshot the stored fit function moves the view to the
  transform with scale 1 and translation (width / 2, height / 2) when the svg and the zoom
  behaviour are set up, and does nothing otherwise; the stored centre function does
  nothing.
\<close>

theorem empty_snapshot_view_functions:
  assumes "fg_nodes data = []"
  shows "fit_function data bounds cv =
           (if cv_zoom cv \<and> cv_svg cv
            then cv\<lparr>cv_transform :=
                      \<lparr>zt_k = 1, zt_x = dim_width (cv_dimensions cv) / 2,
                       zt_y = dim_height (cv_dimensions cv) / 2\<rparr>\<rparr>
            else cv)
       \<and> center_function data nodeId cv = cv"
  using assms
  by (simp add: fit_function_def center_function_def emptyFitFunction_def emptyCenterFunction_def
        zoom_transform_def zt_scale_def zt_translate_def zoomIdentity_def)

text \<open>
  C7, as stated, fails: on the canvas with the identity transform, fit to screen for the
  empty snapshot changes the transform.
\<close>

theorem empty_fit_moves_view:
  "cv_transform (fit_function empty_graph None example_canvas) \<noteq> cv_transform example_canvas"
  by (simp add: fit_function_def empty_graph_def emptyFitFunction_def example_canvas_def
        zoom_transform_def zt_scale_def zt_translate_def zoomIdentity_def)

text \<open>C7, as amended, on the 800 by 600 canvas.\<close>

theorem empty_snapshot_view_functions_witness:
  "fit_function empty_graph None example_canvas
     = example_canvas\<lparr>cv_transform := \<lparr>zt_k = 1, zt_x = 400, zt_y = 300\<rparr>\<rparr>
   \<and> center_function empty_graph ''a'' example_canvas = example_canvas"
proof -
  have e: "fg_nodes empty_graph = []"
    by (simp add: empty_graph_def)
  have c: "cv_zoom example_canvas" "cv_svg example_canvas"
    "dim_width (cv_dimensions example_canvas) = 800"
    "dim_height (cv_dimensions example_canvas) = 600"
    by (simp_all add: example_canvas_def)
  from empty_snapshot_view_functions [OF e, of None example_canvas "''a''"] c
  show ?thesis by simp
qed

end
